theory Spec2Isabelle
  imports Complex_Main
begin

section \<open>JavaScript values\<close>

text \<open>
  The card component receives its \<open>data\<close> payload from the host as a JSON document, so
  the values that reach the code are \<open>undefined\<close> (a missing property), \<open>null\<close>,
  booleans, numbers, strings, arrays and plain objects. Numbers are IEEE doubles: the
  finite ones are modelled by their exact rational value (negative zero is identified
  with zero, which no operation of this component distinguishes), and every arithmetic
  result is rounded to the nearest double by \<open>fl\<close>. Strings are lists of 8-bit
  characters.
\<close>

datatype jsnum = NaN | PosInf | NegInf | Fin rat

datatype jsval =
    JUndefined
  | JNull
  | JBool bool
  | JNum jsnum
  | JStr string
  | JArr "jsval list"
  | JObj "(string \<times> jsval) list"

datatype error = TypeError | NotFoundError

subsection \<open>Rounding to a double\<close>

function ndigits :: "int \<Rightarrow> int \<Rightarrow> int" where
  \<comment> \<open>The number of base-\<open>b\<close> digits of a positive integer.\<close>
  "ndigits b n = (if n \<le> 0 \<or> b \<le> 1 then 0 else 1 + ndigits b (n div b))"
  by pat_completeness auto
termination
  by (relation "measure (\<lambda>(b, n). nat n)") (auto simp: int_div_less_self)

declare ndigits.simps [simp del]

definition ilog :: "int \<Rightarrow> rat \<Rightarrow> int" where
  \<comment> \<open>\<open>\<lfloor>log\<^sub>b x\<rfloor>\<close> for a positive rational \<open>x\<close>: one less than the number of digits
      of \<open>\<lfloor>x\<rfloor>\<close> from \<open>1\<close> on, and below \<open>1\<close> the negated number of digits of the
      integer just below \<open>1 / x\<close>.\<close>
  "ilog b x = (if 1 \<le> x then ndigits b \<lfloor>x\<rfloor> - 1 else - ndigits b (\<lceil>1 / x\<rceil> - 1))"

definition round_half_even :: "rat \<Rightarrow> int" where
  "round_half_even r =
     (let f = \<lfloor>r\<rfloor>; d = r - of_int f
      in if d < 1 / 2 then f
         else if 1 / 2 < d then f + 1
         else if even f then f else f + 1)"

definition fl :: "rat \<Rightarrow> jsnum" where
  \<comment> \<open>Round to nearest double, ties to even: 53 significant bits, least exponent
      \<open>-1074\<close>, overflow to an infinity when the rounded magnitude reaches \<open>2\<^sup>1\<^sup>0\<^sup>2\<^sup>4\<close>.\<close>
  "fl x =
     (if x = 0 then Fin 0
      else
        let a = \<bar>x\<bar>;
            e = max (ilog 2 a - 52) (- 1074);
            m = round_half_even (a / 2 powi e);
            r = of_int m * 2 powi e
        in if 1024 \<le> ilog 2 r then (if x < 0 then NegInf else PosInf)
           else Fin (if x < 0 then - r else r))"

subsection \<open>Decimal digits\<close>

definition digit_char :: "int \<Rightarrow> char" where
  "digit_char d = char_of (48 + d)"

function decimal :: "int \<Rightarrow> string" where
  \<comment> \<open>The decimal digits of a non-negative integer, without leading zeros.\<close>
  "decimal n = (if n < 10 then [digit_char n] else decimal (n div 10) @ [digit_char (n mod 10)])"
  by pat_completeness auto
termination
  by (relation "measure nat") (auto simp: int_div_less_self)

declare decimal.simps [simp del]

definition is_digit :: "char \<Rightarrow> bool" where
  "is_digit c = (48 \<le> (of_char c :: int) \<and> (of_char c :: int) \<le> 57)"

definition digit_value :: "char \<Rightarrow> int" where
  \<comment> \<open>The value of a decimal or hexadecimal digit.\<close>
  "digit_value c =
     (let k = (of_char c :: int)
      in if 97 \<le> k then k - 87 else if 65 \<le> k then k - 55 else k - 48)"

definition digits_value :: "int \<Rightarrow> string \<Rightarrow> int" where
  "digits_value b ds = foldl (\<lambda>a c. a * b + digit_value c) 0 ds"

subsection \<open>Number to string\<close>

text \<open>
  \<open>Number::toString\<close> of ECMAScript for a positive finite number: the shortest digit
  string \<open>s\<close> (of \<open>k\<close> digits) and the exponent \<open>n\<close> with \<open>fl (s * 10 ^ (n - k)) = x\<close>;
  among two candidates of the same length the closer one. \<open>candidate k x\<close> tries the
  two \<open>k\<close>-digit neighbours of \<open>x\<close>; \<open>shortest\<close> tries \<open>k = 1, 2, ...\<close> and ends with
  the nearest 17-digit decimal, which identifies every double.
\<close>

definition nearest :: "rat \<Rightarrow> rat \<Rightarrow> int \<Rightarrow> int" where
  \<comment> \<open>Of \<open>lo\<close> and \<open>lo + 1\<close> (in units \<open>u\<close>) the one closer to \<open>x\<close>; the even one at a tie.\<close>
  "nearest x u lo =
     (let dl = x - of_int lo * u; dh = of_int (lo + 1) * u - x
      in if dl < dh then lo else if dh < dl then lo + 1 else if even lo then lo else lo + 1)"

definition candidate :: "int \<Rightarrow> rat \<Rightarrow> int option" where
  "candidate k x =
     (let u = 10 powi (ilog 10 x + 1 - k);
          lo = \<lfloor>x / u\<rfloor>;
          ok_lo = (fl (of_int lo * u) = Fin x);
          ok_hi = (fl (of_int (lo + 1) * u) = Fin x)
      in if ok_lo \<and> ok_hi then Some (nearest x u lo)
         else if ok_lo then Some lo
         else if ok_hi then Some (lo + 1)
         else None)"

fun shortest :: "nat \<Rightarrow> int \<Rightarrow> rat \<Rightarrow> int \<times> int" where
  \<comment> \<open>The digits as an integer, and the number of digits asked for.\<close>
  "shortest 0 k x =
     (nearest x (10 powi (ilog 10 x + 1 - k)) \<lfloor>x / 10 powi (ilog 10 x + 1 - k)\<rfloor>, k)"
| "shortest (Suc fuel) k x =
     (case candidate k x of Some s \<Rightarrow> (s, k) | None \<Rightarrow> shortest fuel (k + 1) x)"

definition strip_zeros :: "string \<Rightarrow> string" where
  "strip_zeros ds = rev (dropWhile (\<lambda>c. c = CHR ''0'') (rev ds))"

definition positiveToString :: "rat \<Rightarrow> string" where
  "positiveToString x =
     (let (s, k0) = shortest 16 1 x;
          n = ilog 10 x + 1 + (int (length (decimal s)) - k0);
          ds = strip_zeros (decimal s);
          k = int (length ds)
      in if - 5 \<le> n \<and> n \<le> 21 then
           (if k \<le> n then ds @ replicate (nat (n - k)) CHR ''0''
            else if 0 < n then take (nat n) ds @ ''.'' @ drop (nat n) ds
            else ''0.'' @ replicate (nat (- n)) CHR ''0'' @ ds)
         else
           (let e = (if n < 0 then ''-'' else ''+'') @ decimal \<bar>n - 1\<bar>
            in if k = 1 then ds @ ''e'' @ e
               else take 1 ds @ ''.'' @ drop 1 ds @ ''e'' @ e))"

definition numberToString :: "jsnum \<Rightarrow> string" where
  "numberToString x =
     (case x of
        NaN \<Rightarrow> ''NaN''
      | PosInf \<Rightarrow> ''Infinity''
      | NegInf \<Rightarrow> ''-Infinity''
      | Fin q \<Rightarrow>
          if q = 0 then ''0''
          else if q < 0 then ''-'' @ positiveToString (- q)
          else positiveToString q)"

subsection \<open>Number.prototype.toFixed\<close>

definition toFixed :: "jsnum \<Rightarrow> nat \<Rightarrow> string" where
  \<comment> \<open>ECMAScript: a non-finite number prints as \<open>Number::toString\<close> does; a magnitude
      from \<open>10 ^ 21\<close> on too; otherwise \<open>n\<close> is the integer nearest to \<open>x * 10 ^ f\<close> (the
      larger one at a tie), printed with the point before its last \<open>f\<close> digits.\<close>
  "toFixed x f =
     (case x of
        NaN \<Rightarrow> ''NaN''
      | PosInf \<Rightarrow> ''Infinity''
      | NegInf \<Rightarrow> ''-Infinity''
      | Fin q \<Rightarrow>
          let s = (if q < 0 then ''-'' else []);
              a = \<bar>q\<bar>
          in if 10 ^ 21 \<le> a then s @ positiveToString a
             else
               let n = \<lfloor>a * 10 ^ f + 1 / 2\<rfloor>;
                   m = decimal n;
                   z = (if length m \<le> f then replicate (f + 1 - length m) CHR ''0'' @ m else m)
               in if f \<noteq> 0
                  then s @ take (length z - f) z @ ''.'' @ drop (length z - f) z
                  else s @ m)"

subsection \<open>String to number\<close>

text \<open>
  \<open>StringToNumber\<close> of ECMAScript: white space is trimmed; the empty string is \<open>0\<close>; a
  signed decimal literal (digits, an optional fraction, an optional exponent) or
  \<open>Infinity\<close>, or an unsigned binary, octal or hexadecimal integer, is its value rounded
  to a double; every other string is \<open>NaN\<close>.
\<close>

definition is_space :: "char \<Rightarrow> bool" where
  "is_space c = ((of_char c :: nat) \<in> {9, 10, 11, 12, 13, 32, 160})"

definition trim :: "string \<Rightarrow> string" where
  "trim s = rev (dropWhile is_space (rev (dropWhile is_space s)))"

definition is_radix_digit :: "int \<Rightarrow> char \<Rightarrow> bool" where
  "is_radix_digit b c =
     (let k = (of_char c :: int)
      in ((48 \<le> k \<and> k \<le> 57) \<or> (97 \<le> k \<and> k \<le> 102) \<or> (65 \<le> k \<and> k \<le> 70))
         \<and> digit_value c < b)"

definition neg :: "jsnum \<Rightarrow> jsnum" where
  "neg x = (case x of NaN \<Rightarrow> NaN | PosInf \<Rightarrow> NegInf | NegInf \<Rightarrow> PosInf | Fin q \<Rightarrow> Fin (- q))"

definition parse_exponent :: "string \<Rightarrow> int option" where
  \<comment> \<open>The optional exponent part, which must reach the end of the string.\<close>
  "parse_exponent s =
     (case s of
        [] \<Rightarrow> Some 0
      | c # r \<Rightarrow>
          if c = CHR ''e'' \<or> c = CHR ''E'' then
            (let ds = (case r of
                         [] \<Rightarrow> []
                       | d # r' \<Rightarrow> if d = CHR ''-'' \<or> d = CHR ''+'' then r' else r)
             in if ds \<noteq> [] \<and> list_all is_digit ds
                then Some (if take 1 r = ''-'' then - digits_value 10 ds else digits_value 10 ds)
                else None)
          else None)"

definition parse_unsigned :: "string \<Rightarrow> jsnum option" where
  "parse_unsigned s =
     (if s = ''Infinity'' then Some PosInf
      else
        let ip = takeWhile is_digit s;
            r1 = dropWhile is_digit s;
            fp = (if take 1 r1 = ''.'' then takeWhile is_digit (drop 1 r1) else []);
            r2 = (if take 1 r1 = ''.'' then dropWhile is_digit (drop 1 r1) else r1)
        in if ip = [] \<and> fp = [] then None
           else
             (case parse_exponent r2 of
                None \<Rightarrow> None
              | Some e \<Rightarrow>
                  Some (fl (of_int (digits_value 10 (ip @ fp)) * 10 powi (e - int (length fp))))))"

definition parse_radix :: "string \<Rightarrow> jsnum option" where
  \<comment> \<open>\<open>0b\<close>, \<open>0o\<close> and \<open>0x\<close> literals (either case of the letter), with no sign.\<close>
  "parse_radix s =
     (if take 1 s = ''0'' \<and> 2 < length s then
        (let c = s ! 1;
             b = (if c = CHR ''x'' \<or> c = CHR ''X'' then 16
                  else if c = CHR ''o'' \<or> c = CHR ''O'' then 8
                  else if c = CHR ''b'' \<or> c = CHR ''B'' then 2
                  else (0 :: int))
         in if b \<noteq> 0 \<and> list_all (is_radix_digit b) (drop 2 s)
            then Some (fl (of_int (digits_value b (drop 2 s))))
            else None)
      else None)"

definition StringToNumber :: "string \<Rightarrow> jsnum" where
  "StringToNumber str =
     (let s = trim str
      in if s = [] then Fin 0
         else
           (case parse_radix s of
              Some x \<Rightarrow> x
            | None \<Rightarrow>
                (case (if take 1 s = ''-'' then map_option neg (parse_unsigned (drop 1 s))
                       else if take 1 s = ''+'' then parse_unsigned (drop 1 s)
                       else parse_unsigned s) of
                   Some x \<Rightarrow> x
                 | None \<Rightarrow> NaN)))"

subsection \<open>Conversions of values\<close>

text \<open>
  \<open>ToString\<close> and \<open>ToNumber\<close> convert an array through \<open>Array.prototype.join\<close> and a
  plain object through \<open>Object.prototype.toString\<close>. An object of the payload that has
  an own property named \<open>toString\<close> shadows that method with a value that is not
  callable, and \<open>Object.prototype.valueOf\<close> returns the object itself, so its
  conversion to a primitive raises \<open>TypeError\<close>.
\<close>

definition nullish :: "jsval \<Rightarrow> bool" where
  "nullish v = (v = JUndefined \<or> v = JNull)"

definition coalesce :: "jsval \<Rightarrow> jsval \<Rightarrow> jsval" where
  \<comment> \<open>\<open>v ?? d\<close>\<close>
  "coalesce v d = (if nullish v then d else v)"

fun truthy :: "jsval \<Rightarrow> bool" where
  "truthy JUndefined = False"
| "truthy JNull = False"
| "truthy (JBool b) = b"
| "truthy (JNum n) = (n \<noteq> NaN \<and> n \<noteq> Fin 0)"
| "truthy (JStr s) = (s \<noteq> [])"
| "truthy (JArr xs) = True"
| "truthy (JObj ps) = True"

definition or_else :: "jsval \<Rightarrow> jsval \<Rightarrow> jsval" where
  \<comment> \<open>\<open>v || d\<close>\<close>
  "or_else v d = (if truthy v then v else d)"

fun ToString :: "jsval \<Rightarrow> error + string"
  and join :: "jsval list \<Rightarrow> error + string" where
  "ToString JUndefined = Inr ''undefined''"
| "ToString JNull = Inr ''null''"
| "ToString (JBool b) = Inr (if b then ''true'' else ''false'')"
| "ToString (JNum n) = Inr (numberToString n)"
| "ToString (JStr s) = Inr s"
| "ToString (JArr xs) = join xs"
| "ToString (JObj ps) =
     (if map_of ps ''toString'' \<noteq> None then Inl TypeError else Inr ''[object Object]'')"
| "join [] = Inr []"
| "join (x # xs) =
     (case (if x = JUndefined \<or> x = JNull then Inr [] else ToString x) of
        Inl e \<Rightarrow> Inl e
      | Inr s \<Rightarrow>
          if xs = [] then Inr s
          else (case join xs of Inl e \<Rightarrow> Inl e | Inr r \<Rightarrow> Inr (s @ '','' @ r)))"

definition ToNumber :: "jsval \<Rightarrow> error + jsnum" where
  "ToNumber v =
     (case v of
        JUndefined \<Rightarrow> Inr NaN
      | JNull \<Rightarrow> Inr (Fin 0)
      | JBool b \<Rightarrow> Inr (Fin (if b then 1 else 0))
      | JNum n \<Rightarrow> Inr n
      | JStr s \<Rightarrow> Inr (StringToNumber s)
      | _ \<Rightarrow> (case ToString v of Inl e \<Rightarrow> Inl e | Inr s \<Rightarrow> Inr (StringToNumber s)))"

subsection \<open>Arithmetic of the formatter\<close>

definition Math_abs :: "jsnum \<Rightarrow> jsnum" where
  "Math_abs x = (case x of NaN \<Rightarrow> NaN | PosInf \<Rightarrow> PosInf | NegInf \<Rightarrow> PosInf | Fin q \<Rightarrow> Fin \<bar>q\<bar>)"

definition geq :: "jsnum \<Rightarrow> rat \<Rightarrow> bool" where
  \<comment> \<open>\<open>x >= c\<close> for a finite constant \<open>c\<close>; false for \<open>NaN\<close>.\<close>
  "geq x c = (case x of NaN \<Rightarrow> False | PosInf \<Rightarrow> True | NegInf \<Rightarrow> False | Fin q \<Rightarrow> c \<le> q)"

definition divide_by :: "jsnum \<Rightarrow> rat \<Rightarrow> jsnum" where
  \<comment> \<open>\<open>x / c\<close> for a finite positive constant \<open>c\<close>.\<close>
  "divide_by x c = (case x of NaN \<Rightarrow> NaN | PosInf \<Rightarrow> PosInf | NegInf \<Rightarrow> NegInf | Fin q \<Rightarrow> fl (q / c))"

section \<open>The formatter\<close>

definition formatMetricValue :: "jsval \<Rightarrow> jsval \<Rightarrow> error + string" where
  "formatMetricValue val format =
     (case ToNumber (coalesce val (JNum (Fin 0))) of
        Inl e \<Rightarrow> Inl e
      | Inr numValue \<Rightarrow>
          if format = JStr ''STRING'' then ToString (coalesce val (JStr []))
          else if format = JStr ''PERCENT'' then
            (if numValue = Fin 0 then Inr []
             else Inr (toFixed numValue 2 @ ''%''))
          else if format = JStr ''DECIMAL'' then Inr (toFixed numValue 2)
          else if format = JStr ''DOLLAR'' then
            (if numValue = Fin 0 then Inr ''$0.0''
             else
               let absValue = Math_abs numValue
               in if geq absValue 1000000 then
                    Inr (''$'' @ toFixed (divide_by numValue 1000000) 1 @ ''M'')
                  else if geq absValue 1000 then
                    Inr (''$'' @ toFixed (divide_by numValue 1000) 1 @ ''K'')
                  else Inr (''$'' @ toFixed numValue 1))
          else ToString (coalesce val (JStr [])))"

subsection \<open>Rendering to a fixed number of decimals, in the words of the specification\<close>

text \<open>
  The specification speaks of a value "to one decimal" and "to exactly two decimals".
  \<open>fixed_decimal d x\<close> writes that out: the multiple of \<open>10\<^sup>-\<^sup>d\<close> nearest to \<open>x\<close> (away
  from zero at a tie), as a sign, the digits of the integer part, a point and exactly
  \<open>d\<close> digits. \<open>rendered d x\<close> extends it to what the number type holds beyond the
  decimals: the names of the non-finite numbers, and the exponent notation from
  \<open>10\<^sup>2\<^sup>1\<close> on. \<open>has_decimals d s\<close> recognises the texts with exactly \<open>d\<close> decimals.
\<close>

fun lastdigits :: "nat \<Rightarrow> int \<Rightarrow> string" where
  \<comment> \<open>The last \<open>d\<close> decimal digits of \<open>n\<close>, with leading zeros.\<close>
  "lastdigits 0 n = []"
| "lastdigits (Suc d) n = lastdigits d (n div 10) @ [digit_char (n mod 10)]"

definition fixed_decimal :: "nat \<Rightarrow> rat \<Rightarrow> string" where
  "fixed_decimal d x =
     (let n = \<lfloor>\<bar>x\<bar> * 10 ^ d + 1 / 2\<rfloor>
      in (if x < 0 then ''-'' else []) @ decimal (n div 10 ^ d) @ ''.'' @ lastdigits d n)"

definition rendered :: "nat \<Rightarrow> jsnum \<Rightarrow> string" where
  "rendered d x =
     (case x of
        NaN \<Rightarrow> ''NaN''
      | PosInf \<Rightarrow> ''Infinity''
      | NegInf \<Rightarrow> ''-Infinity''
      | Fin q \<Rightarrow>
          if \<bar>q\<bar> < 10 ^ 21 then fixed_decimal d q
          else (if q < 0 then ''-'' else []) @ positiveToString \<bar>q\<bar>)"

definition has_decimals :: "nat \<Rightarrow> string \<Rightarrow> bool" where
  "has_decimals d s =
     (let t = (if take 1 s = ''-'' then drop 1 s else s);
          ip = takeWhile is_digit t;
          r = dropWhile is_digit t
      in ip \<noteq> [] \<and> take 1 r = ''.'' \<and> length (drop 1 r) = d \<and> list_all is_digit (drop 1 r))"

fun has_text :: "jsval \<Rightarrow> bool"
  and all_have_text :: "jsval list \<Rightarrow> bool" where
  \<comment> \<open>The values with a conversion to text: every primitive; an array of such values;
      an object that does not shadow \<open>toString\<close>.\<close>
  "has_text (JArr xs) = all_have_text xs"
| "has_text (JObj ps) = (map_of ps ''toString'' = None)"
| "has_text JUndefined = True"
| "has_text JNull = True"
| "has_text (JBool b) = True"
| "has_text (JNum n) = True"
| "has_text (JStr s) = True"
| "all_have_text [] = True"
| "all_have_text (x # xs) = (has_text x \<and> all_have_text xs)"

section \<open>The card\<close>

subsection \<open>Reading the payload\<close>

definition ownProp :: "jsval \<Rightarrow> string \<Rightarrow> jsval" where
  \<comment> \<open>\<open>obj.name\<close> for a receiver that is not \<open>null\<close> or \<open>undefined\<close>, and for the names
      the component reads (\<open>id\<close>, \<open>name\<close>, \<open>metrics\<close>, \<open>label\<close>, \<open>value\<close>, \<open>format\<close>), none
      of which a built-in prototype defines: an own property of an object, else
      \<open>undefined\<close>.\<close>
  "ownProp obj name =
     (case obj of
        JObj ps \<Rightarrow> (case map_of ps name of Some v \<Rightarrow> v | None \<Rightarrow> JUndefined)
      | _ \<Rightarrow> JUndefined)"

definition getProp :: "jsval \<Rightarrow> string \<Rightarrow> error + jsval" where
  \<comment> \<open>\<open>obj.name\<close>: reading a property of \<open>null\<close> or \<open>undefined\<close> raises \<open>TypeError\<close>.\<close>
  "getProp obj name = (if nullish obj then Inl TypeError else Inr (ownProp obj name))"

definition payload :: "jsval \<Rightarrow> jsval" where
  \<comment> \<open>\<open>const m = data || {}\<close>\<close>
  "payload data = or_else data (JObj [])"

subsection \<open>Metric rows\<close>

definition newline :: string where
  "newline = [CHR 0x0A]"

definition rowPadding :: string where
  "rowPadding = ''6px 0''"

definition labelSize :: string where
  "labelSize = ''.875rem''"

definition valueSize :: string where
  "valueSize = ''1rem''"

definition valueWeight :: string where
  "valueWeight = ''400''"

definition labelColor :: string where
  "labelColor = ''#374151''"

definition valueColor :: string where
  "valueColor = ''#111827''"

definition rowTemplate :: "string \<Rightarrow> string \<Rightarrow> string \<Rightarrow> string \<Rightarrow> string" where
  \<open>rowTemplate borderClass borderStyle label formattedValue =
     newline @
     ''      <div class="'' @ borderClass @ ''" style="display:flex;justify-content:space-between;align-items:center;'' @ newline @
     ''                                        padding:'' @ rowPadding @ '';'' @ borderStyle @ ''">'' @ newline @
     ''        <span style="font-size:'' @ labelSize @ '';color:'' @ labelColor @ '';">'' @ label @ ''</span>'' @ newline @
     ''        <span style="font-size:'' @ valueSize @ '';font-weight:'' @ valueWeight @ '';color:'' @ valueColor @ '';">'' @ newline @
     ''          '' @ formattedValue @ newline @
     ''        </span>'' @ newline @
     ''      </div>'' @ newline @
     ''    ''\<close>

definition metricRow :: "nat \<Rightarrow> jsval \<Rightarrow> nat \<Rightarrow> error + string" where
  \<comment> \<open>The body of the \<open>forEach\<close> callback for the entry \<open>metric\<close> at \<open>index\<close> of a list
      of \<open>len\<close> entries: the text appended to \<open>metricRowsHtml\<close>.\<close>
  "metricRow len metric index =
     (let isLast = (int index = int len - 1);
          borderClass = (if isLast then ''mc-row-last'' else []);
          borderStyle = (if isLast then ''border-bottom:none;''
                         else ''border-bottom:1px solid rgba(0,0,0,.08);'')
      in case getProp metric ''value'' of
           Inl e \<Rightarrow> Inl e
         | Inr v \<Rightarrow>
        (case getProp metric ''format'' of
           Inl e \<Rightarrow> Inl e
         | Inr f \<Rightarrow>
        (case formatMetricValue v f of
           Inl e \<Rightarrow> Inl e
         | Inr formattedValue \<Rightarrow>
        (case getProp metric ''label'' of
           Inl e \<Rightarrow> Inl e
         | Inr l \<Rightarrow>
        (case ToString (or_else l (JStr [])) of
           Inl e \<Rightarrow> Inl e
         | Inr label \<Rightarrow> Inr (rowTemplate borderClass borderStyle label formattedValue))))))"

definition renderable :: "jsval \<Rightarrow> bool" where
  \<comment> \<open>A metric entry whose row can be built: it is not \<open>null\<close> or \<open>undefined\<close>, and its
      label and its value, where it has them, have a conversion to text.\<close>
  "renderable metric =
     (\<not> nullish metric \<and> has_text (ownProp metric ''label'')
      \<and> has_text (ownProp metric ''value''))"

definition borderClassOf :: "nat \<Rightarrow> nat \<Rightarrow> string" where
  \<comment> \<open>The class and the style of the row at \<open>index\<close> of \<open>len\<close> rows, as \<open>metricRow\<close> chooses
      them.\<close>
  "borderClassOf len index = (if int index = int len - 1 then ''mc-row-last'' else [])"

definition borderStyleOf :: "nat \<Rightarrow> nat \<Rightarrow> string" where
  "borderStyleOf len index =
     (if int index = int len - 1 then ''border-bottom:none;''
      else ''border-bottom:1px solid rgba(0,0,0,.08);'')"

fun forEach_rows :: "nat \<Rightarrow> jsval list \<Rightarrow> nat \<Rightarrow> string \<Rightarrow> error + string" where
  \<comment> \<open>\<open>metrics.forEach\<close> from \<open>index\<close> on, with the text built so far.\<close>
  "forEach_rows len [] index html = Inr html"
| "forEach_rows len (metric # rest) index html =
     (case metricRow len metric index of
        Inl e \<Rightarrow> Inl e
      | Inr row \<Rightarrow> forEach_rows len rest (Suc index) (html @ row))"

definition metricRowsHtml :: "jsval list \<Rightarrow> error + string" where
  "metricRowsHtml metrics = forEach_rows (length metrics) metrics 0 []"

definition metricsOf :: "jsval \<Rightarrow> error + jsval list" where
  \<comment> \<open>\<open>const metrics = m.metrics || []\<close>, of which \<open>forEach\<close> is then called: only an
      array has that method.\<close>
  "metricsOf m =
     (case or_else (ownProp m ''metrics'') (JArr []) of
        JArr metrics \<Rightarrow> Inr metrics
      | _ \<Rightarrow> Inl TypeError)"

subsection \<open>Selection\<close>

datatype signal = SetStateValue string jsval | SetTriggerValue string jsval

definition selectionToken :: "jsval \<Rightarrow> jsval" where
  \<comment> \<open>\<open>const cardId = m.id || m.name || null\<close>\<close>
  "selectionToken m = or_else (or_else (ownProp m ''id'') (ownProp m ''name'')) JNull"

definition handleSelect :: "jsval \<Rightarrow> signal list \<Rightarrow> signal list" where
  \<comment> \<open>The two calls into the host, appended to the signals sent so far.\<close>
  "handleSelect m out =
     (let cardId = selectionToken m
      in (out @ [SetStateValue ''selected'' cardId]) @ [SetTriggerValue ''clicked'' cardId])"



subsection \<open>Mounting and teardown\<close>

text \<open>
  The document is a store of nodes: each node has its list of children, and the nodes
  made by \<open>createElement\<close> are numbered from \<open>fresh\<close> on. \<open>markup\<close> holds what was
  assigned to a node's \<open>innerHTML\<close>.
\<close>

type_synonym node = nat

record dom =
  children :: "node \<Rightarrow> node list"
  markup :: "node \<Rightarrow> string option"
  fresh :: node

definition createElement :: "dom \<Rightarrow> node \<times> dom" where
  "createElement d = (fresh d, d\<lparr>fresh := Suc (fresh d)\<rparr>)"

definition set_innerHTML :: "node \<Rightarrow> string \<Rightarrow> dom \<Rightarrow> dom" where
  "set_innerHTML n html d = d\<lparr>markup := (markup d)(n \<mapsto> html)\<rparr>"

definition appendChild :: "node \<Rightarrow> node \<Rightarrow> dom \<Rightarrow> dom" where
  \<comment> \<open>For a node that has no parent yet, as the node just created has.\<close>
  "appendChild parent n d = d\<lparr>children := (children d)(parent := children d parent @ [n])\<rparr>"

definition removeChild :: "node \<Rightarrow> node \<Rightarrow> dom \<Rightarrow> error + dom" where
  "removeChild parent n d =
     (if n \<in> set (children d parent)
      then Inr (d\<lparr>children := (children d)(parent := remove1 n (children d parent))\<rparr>)
      else Inl NotFoundError)"

definition mount :: "node \<Rightarrow> string \<Rightarrow> dom \<Rightarrow> node \<times> dom" where
  \<comment> \<open>\<open>createElement("div")\<close>, \<open>node.innerHTML = html\<close>, \<open>parentElement.appendChild(node)\<close>\<close>
  "mount parentElement html d =
     (let (n, d1) = createElement d
      in (n, appendChild parentElement n (set_innerHTML n html d1)))"

definition teardown :: "node \<Rightarrow> node \<Rightarrow> dom \<Rightarrow> error + dom" where
  \<comment> \<open>The closure returned by the component, over its \<open>parentElement\<close> and \<open>node\<close>.\<close>
  "teardown parentElement n d = removeChild parentElement n d"

definition wf_dom :: "dom \<Rightarrow> bool" where
  \<comment> \<open>A document: a node is a child once, of one parent, and was created.\<close>
  "wf_dom d =
     ((\<forall>p. distinct (children d p))
      \<and> (\<forall>p q. p \<noteq> q \<longrightarrow> set (children d p) \<inter> set (children d q) = {})
      \<and> (\<forall>p. \<forall>n \<in> set (children d p). n < fresh d))"

section \<open>Selection and keyboard activation\<close>

lemma payload_not_nullish: "\<not> nullish (payload data)"
  by (cases data) (auto simp: payload_def or_else_def nullish_def)

lemma selectionToken_cases:
  "selectionToken m =
     (if truthy (ownProp m ''id'') then ownProp m ''id''
      else if truthy (ownProp m ''name'') then ownProp m ''name''
      else JNull)"
  by (simp add: selectionToken_def or_else_def)

lemma selectionToken_truthy_or_null: "truthy (selectionToken m) \<or> selectionToken m = JNull"
  by (simp add: selectionToken_cases)






text \<open>
  Claim C10. The token that \<open>handleSelect\<close> sends is chosen by truthiness: \<open>data.id\<close>
  when it is truthy, else \<open>data.name\<close> when it is truthy, else \<open>null\<close>. So the token is
  never the empty string and never the number \<open>0\<close>: an empty or zero id gives way to
  the name, and an empty id with an empty name gives \<open>null\<close>.
\<close>

theorem token_by_truthiness:
  "handleSelect m out =
     out @ [SetStateValue ''selected'' (selectionToken m),
            SetTriggerValue ''clicked'' (selectionToken m)]
   \<and> (truthy (ownProp m ''id'') \<longrightarrow> selectionToken m = ownProp m ''id'')
   \<and> (\<not> truthy (ownProp m ''id'') \<longrightarrow> truthy (ownProp m ''name'') \<longrightarrow>
        selectionToken m = ownProp m ''name'')
   \<and> (\<not> truthy (ownProp m ''id'') \<longrightarrow> \<not> truthy (ownProp m ''name'') \<longrightarrow>
        selectionToken m = JNull)
   \<and> selectionToken m \<noteq> JStr [] \<and> selectionToken m \<noteq> JNum (Fin 0)"
  using selectionToken_truthy_or_null [of m]
  by (auto simp: handleSelect_def selectionToken_cases Let_def)

theorem token_by_truthiness_witness:
  "selectionToken (JObj [(''id'', JStr []), (''name'', JStr ''A'')]) = JStr ''A''
   \<and> selectionToken (JObj [(''id'', JNum (Fin 0)), (''name'', JStr ''A'')]) = JStr ''A''
   \<and> selectionToken (JObj [(''id'', JStr []), (''name'', JStr [])]) = JNull
   \<and> selectionToken (JObj [(''id'', JStr ''m1''), (''name'', JStr ''A'')]) = JStr ''m1''"
  using token_by_truthiness [of "JObj [(''id'', JStr []), (''name'', JStr ''A'')]" "[]"]
    token_by_truthiness [of "JObj [(''id'', JNum (Fin 0)), (''name'', JStr ''A'')]" "[]"]
    token_by_truthiness [of "JObj [(''id'', JStr []), (''name'', JStr [])]" "[]"]
    token_by_truthiness [of "JObj [(''id'', JStr ''m1''), (''name'', JStr ''A'')]" "[]"]
  by (simp add: ownProp_def)

section \<open>Decimal digits\<close>

lemma decimal_not_Nil: "decimal n \<noteq> []"
  by (subst decimal.simps) simp

lemma length_lastdigits: "length (lastdigits d n) = d"
  by (induction d arbitrary: n) simp_all

lemma lastdigits_0: "lastdigits d 0 = replicate d CHR ''0''"
  by (induction d) (simp_all add: digit_char_def char_of_def replicate_append_same)

lemma is_digit_digit_char: "0 \<le> k \<Longrightarrow> k < 10 \<Longrightarrow> is_digit (digit_char k)"
  by (simp add: is_digit_def digit_char_def)

lemma digits_decimal: "0 \<le> n \<Longrightarrow> list_all is_digit (decimal n)"
proof (induction n rule: decimal.induct)
  case (1 n)
  show ?case
  proof (cases "n < 10")
    case True
    with "1.prems" show ?thesis
      by (subst decimal.simps) (simp add: is_digit_digit_char)
  next
    case False
    then have "0 \<le> n div 10" by simp
    with False "1.IH" have "list_all is_digit (decimal (n div 10))" by simp
    with False show ?thesis
      by (subst decimal.simps) (simp add: is_digit_digit_char)
  qed
qed

lemma digits_lastdigits: "0 \<le> n \<Longrightarrow> list_all is_digit (lastdigits d n)"
  by (induction d arbitrary: n) (simp_all add: is_digit_digit_char)

lemma decimal_small: "n < 10 \<Longrightarrow> decimal n = [digit_char n]"
  by (subst decimal.simps) simp

lemma decimal_large: "\<not> n < 10 \<Longrightarrow> decimal n = decimal (n div 10) @ [digit_char (n mod 10)]"
  by (subst decimal.simps) simp

lemma padded_decimal:
  "0 \<le> n \<Longrightarrow>
   (if length (decimal n) \<le> d then replicate (d + 1 - length (decimal n)) CHR ''0'' @ decimal n
    else decimal n) = decimal (n div 10 ^ d) @ lastdigits d n"
proof (induction d arbitrary: n)
  case 0
  have "0 < length (decimal n)" using decimal_not_Nil [of n] by simp
  then show ?case by simp
next
  case (Suc d)
  show ?case
  proof (cases "n < 10")
    case True
    have "n < 10 * 10 ^ d"
    proof -
      have "(1::int) \<le> 10 ^ d" by simp
      with True show ?thesis by linarith
    qed
    with Suc.prems have "n div 10 ^ Suc d = 0"
      by (simp add: div_pos_pos_trivial)
    moreover have "n div 10 = 0" "n mod 10 = n"
      using True Suc.prems by (simp_all add: div_pos_pos_trivial)
    ultimately show ?thesis
      using True
      by (simp add: decimal_small lastdigits_0 digit_char_def char_of_def
          replicate_append_same)
  next
    case False
    let ?m = "decimal (n div 10)"
    let ?c = "digit_char (n mod 10)"
    have nn: "0 \<le> n div 10" using Suc.prems by simp
    have "(n div 10) div 10 ^ d = n div 10 ^ Suc d"
      by (simp add: zdiv_zmult2_eq)
    with Suc.IH [OF nn]
    have IH: "(if length ?m \<le> d then replicate (d + 1 - length ?m) CHR ''0'' @ ?m else ?m)
        = decimal (n div 10 ^ Suc d) @ lastdigits d (n div 10)"
      by simp
    have "(if length (decimal n) \<le> Suc d
           then replicate (Suc d + 1 - length (decimal n)) CHR ''0'' @ decimal n
           else decimal n)
        = (if length ?m \<le> d then replicate (d + 1 - length ?m) CHR ''0'' @ ?m else ?m) @ [?c]"
      using False by (simp add: decimal_large)
    also have "\<dots> = decimal (n div 10 ^ Suc d) @ lastdigits (Suc d) n"
      by (simp only: IH lastdigits.simps append_assoc)
    finally show ?thesis .
  qed
qed

lemma toFixed_fixed_decimal:
  assumes "\<bar>q\<bar> < 10 ^ 21" and "0 < f"
  shows "toFixed (Fin q) f = fixed_decimal f q"
proof -
  let ?n = "\<lfloor>\<bar>q\<bar> * 10 ^ f + 1 / 2\<rfloor>"
  let ?m = "decimal ?n"
  let ?z = "if length ?m \<le> f then replicate (f + 1 - length ?m) CHR ''0'' @ ?m else ?m"
  have "0 \<le> \<bar>q\<bar> * 10 ^ f + 1 / 2" by simp
  then have n0: "0 \<le> ?n" by (simp only: zero_le_floor)
  have z: "?z = decimal (?n div 10 ^ f) @ lastdigits f ?n"
    by (rule padded_decimal [OF n0])
  have len: "length ?z - f = length (decimal (?n div 10 ^ f))"
    by (simp only: z length_append length_lastdigits add_diff_cancel_right')
  have "take (length ?z - f) ?z = decimal (?n div 10 ^ f)"
    by (simp only: len) (simp only: z append_eq_conv_conj [symmetric] take_all_iff, simp)
  moreover have "drop (length ?z - f) ?z = lastdigits f ?n"
    by (simp only: len) (simp only: z, simp)
  ultimately show ?thesis
    using assms by (simp add: toFixed_def fixed_decimal_def Let_def not_le)
qed

lemma toFixed_rendered:
  assumes "0 < f"
  shows "toFixed x f = rendered f x"
proof (cases x)
  case (Fin q)
  show ?thesis
  proof (cases "\<bar>q\<bar> < 10 ^ 21")
    case True
    with assms Fin show ?thesis
      by (simp only: toFixed_fixed_decimal) (simp add: rendered_def)
  next
    case False
    with Fin show ?thesis
      by (simp add: toFixed_def rendered_def Let_def)
  qed
qed (simp_all add: toFixed_def rendered_def)

lemma has_decimals_fixed_decimal: "has_decimals d (fixed_decimal d x)"
proof -
  let ?n = "\<lfloor>\<bar>x\<bar> * 10 ^ d + 1 / 2\<rfloor>"
  let ?ip = "decimal (?n div 10 ^ d)"
  let ?fs = "lastdigits d ?n"
  have "0 \<le> \<bar>x\<bar> * 10 ^ d + 1 / 2" by simp
  then have n0: "0 \<le> ?n" by (simp only: zero_le_floor)
  then have q0: "0 \<le> ?n div 10 ^ d" by (simp add: pos_imp_zdiv_nonneg_iff)
  have ip: "list_all is_digit ?ip" "?ip \<noteq> []"
    using digits_decimal [OF q0] decimal_not_Nil by simp_all
  have fs: "list_all is_digit ?fs" "length ?fs = d"
    using digits_lastdigits [OF n0] length_lastdigits by simp_all
  have dot: "\<not> is_digit CHR ''.''" and minus: "\<not> is_digit CHR ''-''"
    by (simp_all add: is_digit_def)
  have tw: "takeWhile is_digit (?ip @ ''.'' @ ?fs) = ?ip"
    using ip dot by (simp add: takeWhile_append2 list_all_iff)
  have dw: "dropWhile is_digit (?ip @ ''.'' @ ?fs) = ''.'' @ ?fs"
    using ip dot by (simp add: dropWhile_append2 list_all_iff)
  have hd: "take 1 (?ip @ ''.'' @ ?fs) \<noteq> ''-''"
  proof -
    obtain c cs where c: "?ip = c # cs" using ip(2) by (cases ?ip) auto
    with ip(1) have "is_digit c" by simp
    with minus have "c \<noteq> CHR ''-''" by auto
    with c show ?thesis by simp
  qed
  show ?thesis
  proof (cases "x < 0")
    case True
    then have "fixed_decimal d x = ''-'' @ ?ip @ ''.'' @ ?fs"
      by (simp add: fixed_decimal_def Let_def)
    then show ?thesis
      using tw dw ip fs by (simp add: has_decimals_def Let_def)
  next
    case False
    then have "fixed_decimal d x = ?ip @ ''.'' @ ?fs"
      by (simp add: fixed_decimal_def Let_def)
    then show ?thesis
      using tw dw ip fs hd by (simp add: has_decimals_def Let_def)
  qed
qed

section \<open>Conversions\<close>

lemma ToString_join_TypeError:
  "ToString v = Inl e \<Longrightarrow> e = TypeError"
  "join xs = Inl e \<Longrightarrow> e = TypeError"
  by (induction v and xs arbitrary: e and e rule: ToString_join.induct)
     (auto split: if_splits sum.splits)

lemma has_text_iff:
  "has_text v \<longleftrightarrow> (\<exists>s. ToString v = Inr s)"
  "all_have_text xs \<longleftrightarrow> (\<exists>s. join xs = Inr s)"
  by (induction v and xs rule: ToString_join.induct)
     (auto split: if_splits sum.splits)

lemma ToNumber_Inl_iff: "ToNumber v = Inl e \<longleftrightarrow> ToString v = Inl e"
  by (cases v) (auto simp: ToNumber_def split: sum.splits)

lemma ToNumber_has_text: "has_text v \<longleftrightarrow> (\<exists>n. ToNumber v = Inr n)"
  by (cases v) (auto simp: ToNumber_def has_text_iff split: sum.splits)

lemma has_text_coalesce: "has_text v \<Longrightarrow> has_text d \<Longrightarrow> has_text (coalesce v d)"
  by (simp add: coalesce_def)

lemma formatMetricValue_passthrough:
  assumes "format \<noteq> JStr ''PERCENT''" "format \<noteq> JStr ''DECIMAL''" "format \<noteq> JStr ''DOLLAR''"
  shows "formatMetricValue v format = ToString (coalesce v (JStr []))"
proof (cases "ToNumber (coalesce v (JNum (Fin 0)))")
  case (Inl e)
  then have "\<not> nullish v" by (auto simp: coalesce_def ToNumber_def)
  with Inl have "ToString (coalesce v (JStr [])) = Inl e"
    by (simp add: coalesce_def ToNumber_Inl_iff)
  with Inl show ?thesis by (simp add: formatMetricValue_def)
next
  case (Inr n)
  with assms show ?thesis by (simp add: formatMetricValue_def)
qed

lemma formatMetricValue_total:
  assumes "has_text v"
  shows "\<exists>s. formatMetricValue v format = Inr s"
proof -
  from assms have "has_text (coalesce v (JNum (Fin 0)))" "has_text (coalesce v (JStr []))"
    by (simp_all add: coalesce_def)
  then obtain n s where "ToNumber (coalesce v (JNum (Fin 0))) = Inr n"
    and "ToString (coalesce v (JStr [])) = Inr s"
    using ToNumber_has_text has_text_iff(1) by blast
  then show ?thesis by (simp add: formatMetricValue_def Let_def)
qed

lemma formatMetricValue_nullish:
  "nullish v \<Longrightarrow> formatMetricValue v format =
     (if format = JStr ''PERCENT'' then Inr []
      else if format = JStr ''DECIMAL'' then Inr (toFixed (Fin 0) 2)
      else if format = JStr ''DOLLAR'' then Inr ''$0.0''
      else Inr [])"
  by (simp add: formatMetricValue_def coalesce_def ToNumber_def)

section \<open>The formatter\<close>

text \<open>
  Claim C1, as amended. For the kind \<open>DOLLAR\<close> and a value whose numeric coercion is
  \<open>n\<close>: the text is \<open>$0.0\<close> when \<open>n\<close> is zero. Otherwise it is \<open>$\<close>, then \<open>n / 1000000\<close>
  with the suffix \<open>M\<close> when the magnitude of \<open>n\<close> is at least 1,000,000, or \<open>n / 1000\<close>
  with the suffix \<open>K\<close> when it is at least 1,000, or \<open>n\<close> itself; the quotient is the
  double that the division gives, it keeps the sign of \<open>n\<close>, and it is written with
  one decimal when it is finite and below \<open>10\<^sup>2\<^sup>1\<close> in magnitude. A coercion that is
  not a number gives \<open>$NaN\<close>, an infinite one \<open>$InfinityM\<close> or \<open>$-InfinityM\<close>, and a
  quotient from \<open>10\<^sup>2\<^sup>1\<close> on is written in exponent notation.
\<close>

theorem dollar_format:
  assumes "ToNumber (coalesce v (JNum (Fin 0))) = Inr n"
  shows "formatMetricValue v (JStr ''DOLLAR'') =
     Inr (case n of
            NaN \<Rightarrow> ''$NaN''
          | PosInf \<Rightarrow> ''$InfinityM''
          | NegInf \<Rightarrow> ''$-InfinityM''
          | Fin q \<Rightarrow>
              if q = 0 then ''$0.0''
              else if 1000000 \<le> \<bar>q\<bar> then ''$'' @ rendered 1 (fl (q / 1000000)) @ ''M''
              else if 1000 \<le> \<bar>q\<bar> then ''$'' @ rendered 1 (fl (q / 1000)) @ ''K''
              else ''$'' @ fixed_decimal 1 q)
   \<and> (\<forall>r. \<bar>r\<bar> < 10 ^ 21 \<longrightarrow>
          rendered 1 (Fin r) = fixed_decimal 1 r \<and> has_decimals 1 (fixed_decimal 1 r))"
proof -
  have small: "\<bar>q\<bar> < 1000 \<Longrightarrow> rendered 1 (Fin q) = fixed_decimal 1 q" for q
    by (simp add: rendered_def)
  have "formatMetricValue v (JStr ''DOLLAR'') =
     Inr (case n of
            NaN \<Rightarrow> ''$NaN''
          | PosInf \<Rightarrow> ''$InfinityM''
          | NegInf \<Rightarrow> ''$-InfinityM''
          | Fin q \<Rightarrow>
              if q = 0 then ''$0.0''
              else if 1000000 \<le> \<bar>q\<bar> then ''$'' @ rendered 1 (fl (q / 1000000)) @ ''M''
              else if 1000 \<le> \<bar>q\<bar> then ''$'' @ rendered 1 (fl (q / 1000)) @ ''K''
              else ''$'' @ fixed_decimal 1 q)"
  proof (cases n)
    case (Fin q)
    with assms show ?thesis
      by (auto simp add: formatMetricValue_def Math_abs_def geq_def divide_by_def
          toFixed_rendered small not_le simp del: One_nat_def)
  qed (use assms in \<open>simp_all add: formatMetricValue_def Math_abs_def geq_def divide_by_def
          toFixed_rendered rendered_def\<close>)
  moreover have "\<bar>r\<bar> < 10 ^ 21 \<longrightarrow>
      rendered 1 (Fin r) = fixed_decimal 1 r \<and> has_decimals 1 (fixed_decimal 1 r)" for r
    by (simp add: rendered_def has_decimals_fixed_decimal)
  ultimately show ?thesis by blast
qed

theorem dollar_format_witness:
  "formatMetricValue (JNum (Fin 1500)) (JStr ''DOLLAR'') = Inr ''$1.5K''
   \<and> formatMetricValue (JNum (Fin (- 2500000))) (JStr ''DOLLAR'') = Inr ''$-2.5M''
   \<and> formatMetricValue (JNum (Fin 12)) (JStr ''DOLLAR'') = Inr ''$12.0''
   \<and> formatMetricValue JNull (JStr ''DOLLAR'') = Inr ''$0.0''"
proof -
  have h1: "ToNumber (coalesce (JNum (Fin 1500)) (JNum (Fin 0))) = Inr (Fin 1500)"
    and h2: "ToNumber (coalesce (JNum (Fin (- 2500000))) (JNum (Fin 0))) = Inr (Fin (- 2500000))"
    and h3: "ToNumber (coalesce (JNum (Fin 12)) (JNum (Fin 0))) = Inr (Fin 12)"
    and h4: "ToNumber (coalesce JNull (JNum (Fin 0))) = Inr (Fin 0)"
    by (simp_all add: coalesce_def nullish_def ToNumber_def)
  have r1: "rendered (Suc 0) (fl (3 / 2)) = ''1.5''"
    and r2: "rendered (Suc 0) (fl (- (5 / 2))) = ''-2.5''"
    and r3: "fixed_decimal (Suc 0) 12 = ''12.0''"
    by code_simp+
  show ?thesis
    using dollar_format [OF h1, THEN conjunct1] dollar_format [OF h2, THEN conjunct1]
      dollar_format [OF h3, THEN conjunct1] dollar_format [OF h4, THEN conjunct1]
    by (simp add: r1 r2 r3)
qed

text \<open>
  The claim as it was written promises \<open>$\<close> and a number with one decimal for every
  value. A value that is not numeric, and a number whose quotient reaches \<open>10\<^sup>2\<^sup>1\<close>,
  give neither.
\<close>

theorem dollar_not_one_decimal_counterexample:
  "formatMetricValue (JStr ''abc'') (JStr ''DOLLAR'') = Inr ''$NaN''
   \<and> \<not> has_decimals 1 ''NaN''
   \<and> formatMetricValue (JNum (Fin (2 ^ 20 * 10 ^ 21))) (JStr ''DOLLAR'') = Inr ''$1.048576e+21M''
   \<and> \<not> has_decimals 1 ''1.048576e+21''"
  by code_simp

text \<open>
  Claim C2, as amended. For the kind \<open>PERCENT\<close> and a value whose numeric coercion is
  \<open>n\<close>: the text is empty when \<open>n\<close> is zero; otherwise it is \<open>n\<close> followed by \<open>%\<close>, where
  \<open>n\<close> is written with exactly two decimals when it is finite and below \<open>10\<^sup>2\<^sup>1\<close> in
  magnitude, as \<open>NaN\<close>, \<open>Infinity\<close> or \<open>-Infinity\<close> when it is not finite, and in
  exponent notation from \<open>10\<^sup>2\<^sup>1\<close> on.
\<close>

theorem percent_format:
  assumes "ToNumber (coalesce v (JNum (Fin 0))) = Inr n"
  shows "formatMetricValue v (JStr ''PERCENT'') =
           Inr (if n = Fin 0 then [] else rendered 2 n @ ''%'')
   \<and> (\<forall>q. \<bar>q\<bar> < 10 ^ 21 \<longrightarrow>
          rendered 2 (Fin q) = fixed_decimal 2 q \<and> has_decimals 2 (fixed_decimal 2 q))"
  using assms
  by (simp add: formatMetricValue_def toFixed_rendered rendered_def has_decimals_fixed_decimal)

theorem percent_format_witness:
  "formatMetricValue (JNum (Fin (5 / 2))) (JStr ''PERCENT'') = Inr ''2.50%''
   \<and> formatMetricValue (JNum (Fin 0)) (JStr ''PERCENT'') = Inr []
   \<and> formatMetricValue JUndefined (JStr ''PERCENT'') = Inr []"
proof -
  have h1: "ToNumber (coalesce (JNum (Fin (5 / 2))) (JNum (Fin 0))) = Inr (Fin (5 / 2))"
    and h2: "ToNumber (coalesce (JNum (Fin 0)) (JNum (Fin 0))) = Inr (Fin 0)"
    and h3: "ToNumber (coalesce JUndefined (JNum (Fin 0))) = Inr (Fin 0)"
    by (simp_all add: coalesce_def nullish_def ToNumber_def)
  have r1: "rendered 2 (Fin (5 / 2)) = ''2.50''"
    by code_simp
  show ?thesis
    using percent_format [OF h1, THEN conjunct1] percent_format [OF h2, THEN conjunct1]
      percent_format [OF h3, THEN conjunct1]
    by (simp add: r1)
qed

theorem percent_not_two_decimals_counterexample:
  "formatMetricValue (JStr ''abc'') (JStr ''PERCENT'') = Inr ''NaN%''
   \<and> \<not> has_decimals 2 ''NaN''
   \<and> formatMetricValue (JNum (Fin (10 ^ 21))) (JStr ''PERCENT'') = Inr ''1e+21%''
   \<and> \<not> has_decimals 2 ''1e+21''"
  by code_simp

text \<open>
  Claim C3, as amended. The formatter returns a text for every kind whatsoever and
  every value that has a conversion to text: \<open>undefined\<close>, \<open>null\<close>, every boolean,
  number and string, every array of such values and every object that does not shadow
  \<open>toString\<close>. An absent or \<open>null\<close> value is formatted as \<open>0\<close> is for the kinds
  \<open>PERCENT\<close>, \<open>DECIMAL\<close> and \<open>DOLLAR\<close>, and as the empty text for the kind \<open>STRING\<close>.
\<close>

theorem formatter_total_on_values_with_text:
  assumes "has_text v"
  shows "(\<exists>s. formatMetricValue v format = Inr s)
   \<and> (nullish v \<longrightarrow>
        formatMetricValue v (JStr ''PERCENT'') = formatMetricValue (JNum (Fin 0)) (JStr ''PERCENT'')
        \<and> formatMetricValue v (JStr ''DECIMAL'') = formatMetricValue (JNum (Fin 0)) (JStr ''DECIMAL'')
        \<and> formatMetricValue v (JStr ''DOLLAR'') = formatMetricValue (JNum (Fin 0)) (JStr ''DOLLAR'')
        \<and> formatMetricValue v (JStr ''STRING'') = Inr [])"
proof -
  have "\<not> nullish (JNum (Fin 0))" by (simp add: nullish_def)
  then have zero: "formatMetricValue (JNum (Fin 0)) f =
      (if f = JStr ''STRING'' then Inr (numberToString (Fin 0))
       else if f = JStr ''PERCENT'' then Inr []
       else if f = JStr ''DECIMAL'' then Inr (toFixed (Fin 0) 2)
       else if f = JStr ''DOLLAR'' then Inr ''$0.0''
       else Inr (numberToString (Fin 0)))" for f
    by (simp add: formatMetricValue_def coalesce_def ToNumber_def)
  show ?thesis
    using formatMetricValue_total [OF assms, of format]
    by (simp add: formatMetricValue_nullish zero)
qed

theorem formatter_total_on_values_with_text_witness:
  "(\<exists>s. formatMetricValue JNull (JStr ''DECIMAL'') = Inr s)
   \<and> formatMetricValue JNull (JStr ''PERCENT'') = formatMetricValue (JNum (Fin 0)) (JStr ''PERCENT'')
   \<and> formatMetricValue JNull (JStr ''DECIMAL'') = formatMetricValue (JNum (Fin 0)) (JStr ''DECIMAL'')
   \<and> formatMetricValue JNull (JStr ''DOLLAR'') = formatMetricValue (JNum (Fin 0)) (JStr ''DOLLAR'')
   \<and> formatMetricValue JNull (JStr ''STRING'') = Inr []"
proof -
  have h: "has_text JNull" by simp
  have n: "nullish JNull" by (simp add: nullish_def)
  show ?thesis
    using formatter_total_on_values_with_text [OF h, of "JStr ''DECIMAL''"] n by blast
qed

text \<open>
  The claim as it was written has the formatter return a text for every value. An
  object of the payload with an own property \<open>toString\<close> has no conversion to a
  primitive, and formatting it raises \<open>TypeError\<close>, whatever the kind.
\<close>

theorem formatter_raises_counterexample:
  "formatMetricValue (JObj [(''toString'', JNull)]) (JStr ''STRING'') = Inl TypeError
   \<and> formatMetricValue (JObj [(''toString'', JNull)]) (JStr ''DECIMAL'') = Inl TypeError"
  by (simp add: formatMetricValue_def coalesce_def nullish_def ToNumber_def)



section \<open>Metric rows\<close>

lemma has_text_or_else: "has_text (or_else l (JStr [])) = has_text l"
  by (cases l) (simp_all add: or_else_def)

lemma metricRow_renderable:
  assumes "renderable metric"
  shows "\<exists>lbl fv.
      formatMetricValue (ownProp metric ''value'') (ownProp metric ''format'') = Inr fv
      \<and> ToString (or_else (ownProp metric ''label'') (JStr [])) = Inr lbl
      \<and> metricRow len metric index =
          Inr (rowTemplate (borderClassOf len index) (borderStyleOf len index) lbl fv)"
proof -
  from assms have nn: "\<not> nullish metric" and l: "has_text (ownProp metric ''label'')"
    and v: "has_text (ownProp metric ''value'')"
    by (simp_all add: renderable_def)
  from formatMetricValue_total [OF v] obtain fv where
    fv: "formatMetricValue (ownProp metric ''value'') (ownProp metric ''format'') = Inr fv"
    by blast
  from l have "has_text (or_else (ownProp metric ''label'') (JStr []))"
    by (simp add: has_text_or_else)
  then obtain lbl where lbl: "ToString (or_else (ownProp metric ''label'') (JStr [])) = Inr lbl"
    using has_text_iff(1) by blast
  from nn fv lbl show ?thesis
    by (simp add: metricRow_def getProp_def borderClassOf_def borderStyleOf_def Let_def)
qed

lemma metricRow_nullish: "nullish metric \<Longrightarrow> metricRow len metric index = Inl TypeError"
  by (simp add: metricRow_def getProp_def Let_def)

lemma forEach_rows_renderable:
  assumes "\<forall>e \<in> set ms. renderable e"
  shows "\<exists>rows. forEach_rows len ms index html = Inr (html @ concat rows)
      \<and> length rows = length ms
      \<and> (\<forall>i < length ms. metricRow len (ms ! i) (index + i) = Inr (rows ! i))"
  using assms
proof (induction ms arbitrary: index html)
  case Nil
  then show ?case by simp
next
  case (Cons m ms)
  from Cons.prems have "renderable m" by simp
  from metricRow_renderable [OF this, of len index]
  obtain row where row: "metricRow len m index = Inr row" by blast
  from Cons.prems have "\<forall>e \<in> set ms. renderable e" by simp
  from Cons.IH [OF this, of "Suc index" "html @ row"]
  obtain rows where rows: "forEach_rows len ms (Suc index) (html @ row) = Inr ((html @ row) @ concat rows)"
    "length rows = length ms"
    "\<forall>i < length ms. metricRow len (ms ! i) (Suc index + i) = Inr (rows ! i)"
    by blast
  have "forEach_rows len (m # ms) index html = Inr (html @ concat (row # rows))"
    using row rows(1) by simp
  moreover have "length (row # rows) = length (m # ms)"
    using rows(2) by simp
  moreover have "\<forall>i < length (m # ms). metricRow len ((m # ms) ! i) (index + i) = Inr ((row # rows) ! i)"
  proof (intro allI impI)
    fix i assume "i < length (m # ms)"
    then show "metricRow len ((m # ms) ! i) (index + i) = Inr ((row # rows) ! i)"
      using row rows(3) by (cases i) simp_all
  qed
  ultimately show ?case by blast
qed



text \<open>
  Claim C8, as amended. A list of metric entries none of which is \<open>null\<close> or
  \<open>undefined\<close>, and whose labels and values have a text where they are present, is
  rendered without an error, and an entry that lacks a field is rendered by default: a
  missing label as the empty text, a missing value as the formatter formats an absent
  value for the entry's kind (\<open>0.00\<close> for \<open>DECIMAL\<close>, \<open>$0.0\<close> for \<open>DOLLAR\<close>, the empty text
  otherwise), and a missing format as the text of the value.
\<close>

theorem entries_with_missing_fields_tolerated:
  assumes "\<forall>e \<in> set metrics. renderable e"
  shows "(\<exists>html. metricRowsHtml metrics = Inr html)
   \<and> (\<forall>i < length metrics.
        \<exists>lbl fv.
          metricRow (length metrics) (metrics ! i) i =
            Inr (rowTemplate (borderClassOf (length metrics) i)
                   (borderStyleOf (length metrics) i) lbl fv)
          \<and> (ownProp (metrics ! i) ''label'' = JUndefined \<longrightarrow> lbl = [])
          \<and> (ownProp (metrics ! i) ''value'' = JUndefined \<longrightarrow>
               fv = (if ownProp (metrics ! i) ''format'' = JStr ''DECIMAL'' then ''0.00''
                     else if ownProp (metrics ! i) ''format'' = JStr ''DOLLAR'' then ''$0.0''
                     else []))
          \<and> (ownProp (metrics ! i) ''format'' = JUndefined \<longrightarrow>
               Inr fv = ToString (coalesce (ownProp (metrics ! i) ''value'') (JStr []))))"
proof -
  have zero: "toFixed (Fin 0) 2 = ''0.00''"
    by code_simp
  have row: "\<exists>lbl fv.
          metricRow (length metrics) (metrics ! i) i =
            Inr (rowTemplate (borderClassOf (length metrics) i)
                   (borderStyleOf (length metrics) i) lbl fv)
          \<and> (ownProp (metrics ! i) ''label'' = JUndefined \<longrightarrow> lbl = [])
          \<and> (ownProp (metrics ! i) ''value'' = JUndefined \<longrightarrow>
               fv = (if ownProp (metrics ! i) ''format'' = JStr ''DECIMAL'' then ''0.00''
                     else if ownProp (metrics ! i) ''format'' = JStr ''DOLLAR'' then ''$0.0''
                     else []))
          \<and> (ownProp (metrics ! i) ''format'' = JUndefined \<longrightarrow>
               Inr fv = ToString (coalesce (ownProp (metrics ! i) ''value'') (JStr [])))"
    if "i < length metrics" for i
  proof -
    let ?e = "metrics ! i"
    from that assms have "renderable ?e" by simp
    from metricRow_renderable [OF this, of "length metrics" i]
    obtain lbl fv where
      fv: "formatMetricValue (ownProp ?e ''value'') (ownProp ?e ''format'') = Inr fv"
      and lbl: "ToString (or_else (ownProp ?e ''label'') (JStr [])) = Inr lbl"
      and r: "metricRow (length metrics) ?e i =
          Inr (rowTemplate (borderClassOf (length metrics) i) (borderStyleOf (length metrics) i) lbl fv)"
      by blast
    have "ownProp ?e ''label'' = JUndefined \<longrightarrow> lbl = []"
      using lbl by (auto simp: or_else_def)
    moreover have "ownProp ?e ''value'' = JUndefined \<longrightarrow>
               fv = (if ownProp ?e ''format'' = JStr ''DECIMAL'' then ''0.00''
                     else if ownProp ?e ''format'' = JStr ''DOLLAR'' then ''$0.0''
                     else [])"
      using fv by (auto simp: formatMetricValue_nullish nullish_def zero split: if_splits)
    moreover have "ownProp ?e ''format'' = JUndefined \<longrightarrow>
               Inr fv = ToString (coalesce (ownProp ?e ''value'') (JStr []))"
      using fv by (auto simp: formatMetricValue_passthrough)
    ultimately show ?thesis using r by blast
  qed
  from forEach_rows_renderable [OF assms, of "length metrics" 0 "[]"]
  have "\<exists>html. metricRowsHtml metrics = Inr html"
    unfolding metricRowsHtml_def by auto
  with row show ?thesis by blast
qed

theorem entries_with_missing_fields_tolerated_witness:
  "(\<exists>html. metricRowsHtml [JObj [], JObj [(''format'', JStr ''DECIMAL'')]] = Inr html)
   \<and> metricRow 2 (JObj []) 0 =
       Inr (rowTemplate [] ''border-bottom:1px solid rgba(0,0,0,.08);'' [] [])
   \<and> metricRow 2 (JObj [(''format'', JStr ''DECIMAL'')]) 1 =
       Inr (rowTemplate ''mc-row-last'' ''border-bottom:none;'' [] ''0.00'')"
proof -
  let ?ms = "[JObj [], JObj [(''format'', JStr ''DECIMAL'')]]"
  have h: "\<forall>e \<in> set ?ms. renderable e"
    by (simp add: renderable_def nullish_def ownProp_def)
  from entries_with_missing_fields_tolerated [OF h]
  have ok: "\<exists>html. metricRowsHtml ?ms = Inr html"
    and rows: "\<forall>i < length ?ms.
        \<exists>lbl fv.
          metricRow (length ?ms) (?ms ! i) i =
            Inr (rowTemplate (borderClassOf (length ?ms) i) (borderStyleOf (length ?ms) i) lbl fv)
          \<and> (ownProp (?ms ! i) ''label'' = JUndefined \<longrightarrow> lbl = [])
          \<and> (ownProp (?ms ! i) ''value'' = JUndefined \<longrightarrow>
               fv = (if ownProp (?ms ! i) ''format'' = JStr ''DECIMAL'' then ''0.00''
                     else if ownProp (?ms ! i) ''format'' = JStr ''DOLLAR'' then ''$0.0''
                     else []))
          \<and> (ownProp (?ms ! i) ''format'' = JUndefined \<longrightarrow>
               Inr fv = ToString (coalesce (ownProp (?ms ! i) ''value'') (JStr [])))"
    by blast+
  from rows [rule_format, of 0] have "metricRow 2 (JObj []) 0 =
       Inr (rowTemplate [] ''border-bottom:1px solid rgba(0,0,0,.08);'' [] [])"
    by (auto simp: ownProp_def borderClassOf_def borderStyleOf_def numeral_2_eq_2)
  moreover from rows [rule_format, of 1] have "metricRow 2 (JObj [(''format'', JStr ''DECIMAL'')]) 1 =
       Inr (rowTemplate ''mc-row-last'' ''border-bottom:none;'' [] ''0.00'')"
    by (auto simp: ownProp_def borderClassOf_def borderStyleOf_def numeral_2_eq_2)
  ultimately show ?thesis using ok by blast
qed

text \<open>
  The claim as it was written also covers an entry that is itself \<open>null\<close> or absent.
  Reading the value of such an entry raises \<open>TypeError\<close>, and no row is rendered.
\<close>

theorem null_entry_counterexample:
  "metricRowsHtml [JNull] = Inl TypeError
   \<and> metricRowsHtml [JObj [(''label'', JStr ''Cost'')], JUndefined] = Inl TypeError"
  by (simp add: metricRowsHtml_def metricRow_def getProp_def nullish_def ownProp_def
      or_else_def formatMetricValue_def coalesce_def ToNumber_def Let_def)

section \<open>Mounting and teardown\<close>

lemma mount_eq:
  "mount p html d =
     (fresh d,
      d\<lparr>children := (children d)(p := children d p @ [fresh d]),
        markup := (markup d)(fresh d \<mapsto> html),
        fresh := Suc (fresh d)\<rparr>)"
  by (simp add: mount_def createElement_def set_innerHTML_def appendChild_def)

lemma wf_dom_mount:
  assumes "wf_dom d" and "mount p html d = (n, d')"
  shows "wf_dom d'" and "n \<in> set (children d' p)" and "\<forall>q. n \<notin> set (children d q)"
proof -
  from assms(2) have n: "n = fresh d"
    and d': "d' = d\<lparr>children := (children d)(p := children d p @ [fresh d]),
        markup := (markup d)(fresh d \<mapsto> html), fresh := Suc (fresh d)\<rparr>"
    by (auto simp: mount_eq)
  from assms(1) have dist: "\<And>q. distinct (children d q)"
    and disj: "\<And>q r. q \<noteq> r \<Longrightarrow> set (children d q) \<inter> set (children d r) = {}"
    and below: "\<And>q k. k \<in> set (children d q) \<Longrightarrow> k < fresh d"
    by (auto simp: wf_dom_def)
  show new: "\<forall>q. n \<notin> set (children d q)"
    using below n by blast
  show "n \<in> set (children d' p)"
    by (simp add: d' n)
  show "wf_dom d'"
    unfolding wf_dom_def
  proof (intro conjI allI impI ballI)
    fix q
    show "distinct (children d' q)"
      using dist [of q] dist [of p] new n by (auto simp: d')
  next
    fix q r :: node
    assume "q \<noteq> r"
    then show "set (children d' q) \<inter> set (children d' r) = {}"
      using disj [of q r] new n by (auto simp: d')
  next
    fix q k
    assume "k \<in> set (children d' q)"
    then show "k < fresh d'"
      using below [of k q] by (auto simp: d' less_Suc_eq split: if_splits)
  qed
qed

text \<open>
  Claim C9. In a document where the node of this instance is a child of its mount
  point, the teardown succeeds and removes exactly that node: afterwards the mount
  point does not contain it, every list of children is the one it was without that
  node (so the nodes of the other mounted instances stay where they were, in their
  order), and the markup of every node is unchanged.
\<close>

theorem teardown_detaches_own_node:
  assumes "wf_dom d" and "n \<in> set (children d p)"
  shows "\<exists>d'. teardown p n d = Inr d'
      \<and> n \<notin> set (children d' p)
      \<and> (\<forall>q. children d' q = filter (\<lambda>k. k \<noteq> n) (children d q))
      \<and> markup d' = markup d \<and> fresh d' = fresh d \<and> wf_dom d'"
proof -
  let ?d' = "d\<lparr>children := (children d)(p := remove1 n (children d p))\<rparr>"
  from assms(1) have dist: "\<And>q. distinct (children d q)"
    and disj: "\<And>q r. q \<noteq> r \<Longrightarrow> set (children d q) \<inter> set (children d r) = {}"
    and below: "\<And>q k. k \<in> set (children d q) \<Longrightarrow> k < fresh d"
    by (auto simp: wf_dom_def)
  have td: "teardown p n d = Inr ?d'"
    using assms(2) by (simp add: teardown_def removeChild_def)
  have gone: "n \<notin> set (children ?d' p)"
    using dist [of p] by simp
  have others: "children ?d' q = filter (\<lambda>k. k \<noteq> n) (children d q)" for q
  proof (cases "q = p")
    case True
    then show ?thesis
      using dist [of p] by (simp add: distinct_remove1_removeAll removeAll_filter_not_eq) metis
  next
    case False
    with disj [of q p] assms(2) have "n \<notin> set (children d q)" by auto
    then have "filter (\<lambda>k. k \<noteq> n) (children d q) = children d q"
      by (simp add: filter_id_conv) blast
    with False show ?thesis by simp
  qed
  have wf: "wf_dom ?d'"
    unfolding wf_dom_def
  proof (intro conjI allI impI ballI)
    fix q
    show "distinct (children ?d' q)"
      unfolding others using dist [of q] by simp
  next
    fix q r :: node
    assume "q \<noteq> r"
    then show "set (children ?d' q) \<inter> set (children ?d' r) = {}"
      unfolding others using disj [of q r] by auto
  next
    fix q k
    assume "k \<in> set (children ?d' q)"
    then have "k \<in> set (children d q)"
      unfolding others by simp
    then show "k < fresh ?d'"
      using below [of k q] by simp
  qed
  from td gone others wf show ?thesis
    by (intro exI [of _ ?d']) simp
qed

theorem teardown_detaches_own_node_witness:
  "\<exists>a b d2 d3.
     mount 0 ''card A'' \<lparr>children = (\<lambda>p. []), markup = Map.empty, fresh = 1\<rparr> = (a, d2)
     \<and> mount 0 ''card B'' d2 = (b, d3)
     \<and> (\<exists>d'. teardown 0 a d3 = Inr d' \<and> children d' 0 = [b]
            \<and> markup d' b = Some ''card B'' \<and> a \<notin> set (children d' 0))"
proof -
  let ?d1 = "\<lparr>children = (\<lambda>p. []), markup = Map.empty, fresh = 1 :: nat\<rparr>"
  obtain a d2 where m1: "mount 0 ''card A'' ?d1 = (a, d2)" by force
  obtain b d3 where m2: "mount 0 ''card B'' d2 = (b, d3)" by force
  have wf1: "wf_dom ?d1" by (simp add: wf_dom_def)
  have wf2: "wf_dom d2" and in2: "a \<in> set (children d2 0)"
    using wf_dom_mount [OF wf1 m1] by simp_all
  have wf3: "wf_dom d3"
    using wf_dom_mount [OF wf2 m2] by simp
  from m1 have a: "a = 1" and c2: "children d2 0 = [1]"
    by (auto simp: mount_eq)
  from m2 a c2 m1 have b: "b = 2" and c3: "children d3 0 = [1, 2]" and k3: "markup d3 2 = Some ''card B''"
    by (auto simp: mount_eq)
  from c3 a have in3: "a \<in> set (children d3 0)" by simp
  from teardown_detaches_own_node [OF wf3 in3]
  obtain d' where "teardown 0 a d3 = Inr d'" "a \<notin> set (children d' 0)"
    "\<forall>q. children d' q = filter (\<lambda>k. k \<noteq> a) (children d3 q)" "markup d' = markup d3"
    by blast
  with a b c3 k3 have "teardown 0 a d3 = Inr d' \<and> children d' 0 = [b]
            \<and> markup d' b = Some ''card B'' \<and> a \<notin> set (children d' 0)"
    by simp
  with m1 m2 show ?thesis by blast
qed

end
